theory Spec2Isabelle
  imports Complex_Main
begin

section \<open>Decimal text of a number\<close>

text \<open>
  Both programs turn numbers into text: PHP concatenates the integer
  \<^verbatim>\<open>$file['error']\<close> to a message, JavaScript calls \<^verbatim>\<open>toFixed(2)\<close>.
  \<open>string_of_nat\<close> is the usual decimal numeral of a natural number, without
  leading zeros; \<open>nat_of_string\<close> reads such a numeral back.
\<close>

definition digit_char :: "nat \<Rightarrow> char" where
  "digit_char d = ''0123456789'' ! (d mod 10)"

definition digit_val :: "char \<Rightarrow> nat" where
  "digit_val c = of_char c - 48"

fun string_of_nat :: "nat \<Rightarrow> string" where
  "string_of_nat n =
     (if n < 10 then [digit_char n]
      else string_of_nat (n div 10) @ [digit_char (n mod 10)])"

declare string_of_nat.simps [simp del]

definition nat_of_string :: "string \<Rightarrow> nat" where
  "nat_of_string s = foldl (\<lambda>a c. 10 * a + digit_val c) 0 s"

section \<open>The PHP built-ins that upload.php calls\<close>

text \<open>
  Strings are byte strings, as in PHP. A PHP value that may be \<^verbatim>\<open>null\<close> is a
  \<open>string option\<close>; \<open>php_str\<close> is the conversion PHP applies when \<^verbatim>\<open>null\<close>
  is concatenated to a string.
\<close>

definition php_str :: "string option \<Rightarrow> string" where
  "php_str v = (case v of None \<Rightarrow> [] | Some s \<Rightarrow> s)"

text \<open>
  \<^verbatim>\<open>basename($path)\<close> on a system whose only directory separator is
  \<^verbatim>\<open>/\<close> (the upload directory is written \<^verbatim>\<open>uploads/\<close>): trailing
  separators are dropped, then everything up to the last remaining separator.
\<close>

definition basename :: "string \<Rightarrow> string" where
  "basename path =
     rev (takeWhile (\<lambda>c. c \<noteq> CHR ''/'')
            (dropWhile (\<lambda>c. c = CHR ''/'') (rev path)))"

text \<open>
  \<^verbatim>\<open>pathinfo($path)['extension']\<close>: the array holds the key only when the
  base name contains a dot; its value is what follows the last dot. A read of the
  absent key gives \<^verbatim>\<open>null\<close>, here \<open>None\<close>.
\<close>

definition pathinfo_extension_key :: "string \<Rightarrow> string option" where
  "pathinfo_extension_key path =
     (let b = basename path in
      if CHR ''.'' \<in> set b
      then Some (rev (takeWhile (\<lambda>c. c \<noteq> CHR ''.'') (rev b)))
      else None)"

text \<open>
  \<^verbatim>\<open>pathinfo($path, PATHINFO_EXTENSION)\<close>: the same element, and the empty
  string when the array has no such key.
\<close>

definition pathinfo_EXTENSION :: "string \<Rightarrow> string" where
  "pathinfo_EXTENSION path = php_str (pathinfo_extension_key path)"

text \<open>
  \<^verbatim>\<open>pathinfo($path, PATHINFO_FILENAME)\<close>: the base name up to its last dot,
  the whole base name when it has none.
\<close>

definition pathinfo_FILENAME :: "string \<Rightarrow> string" where
  "pathinfo_FILENAME path =
     (let b = basename path in
      if CHR ''.'' \<in> set b
      then rev (tl (dropWhile (\<lambda>c. c \<noteq> CHR ''.'') (rev b)))
      else b)"

text \<open>
  \<^verbatim>\<open>empty($s)\<close> for a string: true for the empty string and for the
  string \<^verbatim>\<open>"0"\<close>, which PHP converts to \<^verbatim>\<open>false\<close>.
\<close>

definition php_empty :: "string \<Rightarrow> bool" where
  "php_empty s = (s = [] \<or> s = ''0'')"

text \<open>
  \<^verbatim>\<open>in_array($needle, $haystack)\<close> compares loosely, but none of the allowed
  MIME types is a numeric string, so the comparison is equality of strings.
\<close>

definition in_array :: "string \<Rightarrow> string list \<Rightarrow> bool" where
  "in_array needle haystack = (needle \<in> set haystack)"

text \<open>
  \<^verbatim>\<open>htmlspecialchars($s)\<close> with its default flags
  (\<^verbatim>\<open>ENT_QUOTES | ENT_SUBSTITUTE | ENT_HTML401\<close>, PHP 8.1 and later) on a
  string of valid characters: the five special characters become entities.
\<close>

definition html_entity :: "char \<Rightarrow> string" where
  "html_entity c =
     (if c = CHR ''&'' then ''&amp;''
      else if c = CHR 0x22 then ''&quot;''
      else if c = CHR 0x27 then ''&#039;''
      else if c = CHR ''<'' then ''&lt;''
      else if c = CHR ''>'' then ''&gt;''
      else [c])"

definition htmlspecialchars :: "string \<Rightarrow> string" where
  "htmlspecialchars s = concat (map html_entity s)"

text \<open>
  \<^verbatim>\<open>str_replace($search, $replace, $subject)\<close>: every occurrence of the
  search string, found from left to right, is replaced.
\<close>

function str_replace :: "string \<Rightarrow> string \<Rightarrow> string \<Rightarrow> string" where
  "str_replace search replace [] = []"
| "str_replace search replace (c # cs) =
     (if search \<noteq> [] \<and> take (length search) (c # cs) = search
      then replace @ str_replace search replace (drop (length search) (c # cs))
      else c # str_replace search replace cs)"
  by pat_completeness auto
termination
  by (relation "measure (\<lambda>(s, r, subject). length subject)") auto

section \<open>upload.php\<close>

subsection \<open>Configuration\<close>

text \<open>
  The three global settings. Two of them carry the suffix \<open>_php\<close>: the
  widget's options have the same names.
\<close>

definition uploadDir :: string where
  "uploadDir = ''uploads/''"

definition maxFileSize_php :: nat where
  "maxFileSize_php = 2 * 1024 * 1024"

definition allowedFileTypes_php :: "string list" where
  "allowedFileTypes_php =
     [''image/jpeg'', ''image/png'', ''image/gif'', ''application/pdf'',
      ''application/msword'']"

definition UPLOAD_ERR_OK :: nat where
  "UPLOAD_ERR_OK = 0"

subsection \<open>The data of one request\<close>

text \<open>One entry of \<^verbatim>\<open>$_FILES\<close>: the keys the script reads.\<close>

record upload =
  up_error :: nat
  up_type :: string
  up_name :: string
  up_size :: nat
  up_tmp_name :: string

text \<open>
  The script reads and changes the file system through \<^verbatim>\<open>is_dir\<close>,
  \<^verbatim>\<open>mkdir\<close> and \<^verbatim>\<open>move_uploaded_file\<close>. Their behaviour belongs to the
  platform, so they are parameters: a file system of any type \<open>'fs\<close> with these
  three operations. \<open>move_uploaded_file\<close> answers whether the move succeeded.
\<close>

record 'fs platform =
  is_dir :: "'fs \<Rightarrow> string \<Rightarrow> bool"
  mkdir :: "'fs \<Rightarrow> string \<Rightarrow> 'fs"
  move_uploaded_file :: "'fs \<Rightarrow> string \<Rightarrow> string \<Rightarrow> bool \<times> 'fs"

text \<open>
  What the PHP run time reports without stopping the script: the read of an
  array key that is not there.
\<close>

datatype diagnostic = Undefined_array_key string

subsection \<open>Resolving the final file name (lines 39 to 59)\<close>

text \<open>
  Line 41 reads \<^verbatim>\<open>$pathInfo['extension']\<close>; the value is \<^verbatim>\<open>null\<close> when
  the original name has no extension.
\<close>

definition fileExtension :: "upload \<Rightarrow> string option" where
  "fileExtension file = pathinfo_extension_key (up_name file)"

definition extension_diagnostics :: "upload \<Rightarrow> diagnostic list" where
  "extension_diagnostics file =
     (case fileExtension file of
        None \<Rightarrow> [Undefined_array_key ''extension'']
      | Some e \<Rightarrow> [])"

text \<open>
  Lines 44 to 56. The comparison \<^verbatim>\<open>!==\<close> is strict: a string is never
  identical to \<^verbatim>\<open>null\<close>.
\<close>

definition resolveFileName :: "upload \<Rightarrow> string \<Rightarrow> string" where
  "resolveFileName file newFileName =
     (if php_empty (pathinfo_EXTENSION newFileName)
      then newFileName @ ''.'' @ php_str (fileExtension file)
      else
        (let newFileName' = basename newFileName;
             newFileExtension = pathinfo_EXTENSION newFileName'
         in if Some newFileExtension \<noteq> fileExtension file
            then pathinfo_FILENAME newFileName' @ ''.'' @ php_str (fileExtension file)
            else newFileName'))"

text \<open>Line 59.\<close>

definition uploadFilePath :: "upload \<Rightarrow> string \<Rightarrow> string" where
  "uploadFilePath file newFileName = uploadDir @ resolveFileName file newFileName"

subsection \<open>uploadFile\<close>

record 'fs upload_result =
  message :: string
  filesystem :: "'fs"
  diagnostics :: "diagnostic list"

definition uploadFile ::
  "'fs platform \<Rightarrow> 'fs \<Rightarrow> upload \<Rightarrow> string \<Rightarrow> 'fs upload_result" where
  "uploadFile p fs file newFileName =
     (if up_error file \<noteq> UPLOAD_ERR_OK then
        \<lparr>message = ''There was an error uploading the file: ''
                      @ string_of_nat (up_error file),
         filesystem = fs, diagnostics = []\<rparr>
      else if \<not> in_array (up_type file) allowedFileTypes_php then
        \<lparr>message = ''File type not allowed: '' @ up_type file,
         filesystem = fs, diagnostics = []\<rparr>
      else if up_size file > maxFileSize_php then
        \<lparr>message = ''File is too large: '' @ up_name file,
         filesystem = fs, diagnostics = []\<rparr>
      else
        (let fs1 = (if \<not> is_dir p fs uploadDir then mkdir p fs uploadDir else fs);
             moved = move_uploaded_file p fs1 (up_tmp_name file)
                       (uploadFilePath file newFileName)
         in if fst moved then
              \<lparr>message = ''File uploaded successfully: ''
                            @ htmlspecialchars (resolveFileName file newFileName),
               filesystem = snd moved, diagnostics = extension_diagnostics file\<rparr>
            else
              \<lparr>message = ''There was an error moving the uploaded file'',
               filesystem = snd moved, diagnostics = extension_diagnostics file\<rparr>))"

subsection \<open>The request handler (lines 70 to 88)\<close>

record request =
  REQUEST_METHOD :: string
  FILES :: "(string \<times> upload) list"
  POST :: "string \<rightharpoonup> string"

text \<open>
  Lines 75 and 77: the name of the text field that goes with a file field, and
  its value. A missing \<^verbatim>\<open>$_POST\<close> field reads as \<^verbatim>\<open>null\<close>, which the
  string functions take as the empty string.
\<close>

definition inputName :: "string \<Rightarrow> string" where
  "inputName key = str_replace ''upload-container-'' ''file_name_'' key"

definition fileName :: "(string \<rightharpoonup> string) \<Rightarrow> string \<Rightarrow> string" where
  "fileName post key = php_str (post (inputName key))"

text \<open>
  The first loop: one call of \<open>uploadFile\<close> for each entry of \<^verbatim>\<open>$_FILES\<close>,
  in order, each on the file system the previous one left.
\<close>

fun collect_messages ::
  "'fs platform \<Rightarrow> (string \<rightharpoonup> string) \<Rightarrow> 'fs \<Rightarrow> (string \<times> upload) list
     \<Rightarrow> string list \<times> 'fs" where
  "collect_messages p post fs [] = ([], fs)"
| "collect_messages p post fs ((key, file) # rest) =
     (let r = uploadFile p fs file (fileName post key);
          later = collect_messages p post (filesystem r) rest
      in (message r # fst later, snd later))"

text \<open>The second loop: every message is echoed, followed by \<^verbatim>\<open><br>\<close>.\<close>

definition echo_messages :: "string list \<Rightarrow> string" where
  "echo_messages ms = concat (map (\<lambda>m. m @ ''<br>'') ms)"

definition handle_request :: "'fs platform \<Rightarrow> 'fs \<Rightarrow> request \<Rightarrow> string \<times> 'fs" where
  "handle_request p fs req =
     (if REQUEST_METHOD req = ''POST''
      then (let r = collect_messages p (POST req) fs (FILES req)
            in (echo_messages (fst r), snd r))
      else (''Please upload files'', fs))"

section \<open>ddupload.js\<close>

subsection \<open>Data\<close>

text \<open>
  A \<^verbatim>\<open>File\<close> as the widget reads it: name, MIME type and size in bytes.
  Byte counts are natural numbers; a JavaScript number holds every integer
  below \<open>2 ^ 53\<close> exactly.
\<close>

record js_file =
  file_name :: string
  file_type :: string
  file_size :: nat

text \<open>
  The options object the constructor builds. The two callbacks are not data:
  each call of one of them is recorded, in order, in the widget's \<open>calls\<close>.
\<close>

record upload_options =
  maxFileSize :: int
  allowedFileTypes :: "string list"
  allowCamera :: bool

datatype callback = OnChanged js_file | OnError js_file string

text \<open>
  The part of the page one widget owns: the inline style of the placeholder
  message and of the drop zone, the preview's text, the class \<^verbatim>\<open>dragover\<close>,
  the files the hidden input holds, the number of object URLs created so far
  and the callbacks called so far.
\<close>

record widget =
  options :: upload_options
  messageDisplay :: string
  previewText :: string
  backgroundImage :: string
  backgroundRepeat :: string
  backgroundPosition :: string
  backgroundSize :: string
  dragover :: bool
  inputFiles :: "js_file list"
  objectURLs :: nat
  calls :: "callback list"

subsection \<open>The constructor\<close>

text \<open>
  What the caller passes: every option may be left out. \<^verbatim>\<open>||\<close> replaces
  a missing or zero size by 0 and a missing list by the four image types.
\<close>

record given_options =
  given_maxFileSize :: "int option"
  given_allowedFileTypes :: "string list option"
  given_allowCamera :: "bool option"

definition make_options :: "given_options \<Rightarrow> upload_options" where
  "make_options g =
     \<lparr>maxFileSize = (case given_maxFileSize g of None \<Rightarrow> 0 | Some n \<Rightarrow> n),
      allowedFileTypes =
        (case given_allowedFileTypes g of
           None \<Rightarrow> [''image/jpeg'', ''image/png'', ''image/gif'', ''image/webp'']
         | Some ts \<Rightarrow> ts),
      allowCamera = (case given_allowCamera g of None \<Rightarrow> False | Some b \<Rightarrow> b)\<rparr>"

definition constructor :: "given_options \<Rightarrow> widget" where
  "constructor g =
     \<lparr>options = make_options g,
      messageDisplay = [],
      previewText = [],
      backgroundImage = [],
      backgroundRepeat = [],
      backgroundPosition = [],
      backgroundSize = [],
      dragover = False,
      inputFiles = [],
      objectURLs = 0,
      calls = []\<rparr>"

subsection \<open>Text the widget builds\<close>

text \<open>
  \<^verbatim>\<open>(x / 1024 / 1024).toFixed(2)\<close> for a byte count \<open>x\<close>. Dividing by
  \<open>2 ^ 20\<close> is exact in binary floating point, and \<^verbatim>\<open>toFixed\<close> is defined
  on the exact value: it takes the integer \<open>n\<close> for which \<open>n / 100\<close> is nearest
  to it, the larger one of two, and prints \<open>n\<close> with a point before its last
  two digits. (Values of \<open>10 ^ 21\<close> and more are printed differently; no byte
  count divided by \<open>2 ^ 20\<close> gets there.)
\<close>

definition hundredths_MB :: "nat \<Rightarrow> nat" where
  "hundredths_MB x = (x * 100 + 524288) div 1048576"

definition toFixed2_MB :: "nat \<Rightarrow> string" where
  "toFixed2_MB x =
     (let n = hundredths_MB x
      in string_of_nat (n div 100) @ ''.''
           @ [digit_char (n mod 100 div 10), digit_char (n mod 10)])"

definition too_large_message :: "upload_options \<Rightarrow> js_file \<Rightarrow> string" where
  "too_large_message opts file =
     ''The file '' @ file_name file @ '' is too large (maximum size is ''
       @ toFixed2_MB (nat (maxFileSize opts)) @ ''MB). Your file is ''
       @ toFixed2_MB (file_size file) @ ''MB.''"

definition not_permitted_message :: "js_file \<Rightarrow> string" where
  "not_permitted_message file =
     ''The file '' @ file_name file @ '' is not a permitted file type.''"

text \<open>
  \<^verbatim>\<open>toUpperCase()\<close> as far as it is modelled: the letters a to z become A to
  Z. JavaScript also maps the cased characters outside ASCII (\<^verbatim>\<open>e\<close> with an
  acute accent becomes its capital); their bytes are kept here, so the preview
  label is the program's only for a name whose part after the last dot is ASCII.
\<close>

definition toUpperCase_char :: "char \<Rightarrow> char" where
  "toUpperCase_char c =
     (case map_of (zip ''abcdefghijklmnopqrstuvwxyz'' ''ABCDEFGHIJKLMNOPQRSTUVWXYZ'') c of
        None \<Rightarrow> c
      | Some u \<Rightarrow> u)"

definition toUpperCase :: "string \<Rightarrow> string" where
  "toUpperCase s = map toUpperCase_char s"

text \<open>\<^verbatim>\<open>s.split('.').pop()\<close>: what follows the last dot, all of \<open>s\<close> without one.\<close>

definition split_pop :: "string \<Rightarrow> string" where
  "split_pop s = rev (takeWhile (\<lambda>c. c \<noteq> CHR ''.'') (rev s))"

text \<open>
  \<^verbatim>\<open>URL.createObjectURL(file)\<close> gives a fresh URL at every call; the
  \<open>k\<close>-th one is written \<^verbatim>\<open>blob:k\<close> here.
\<close>

definition createObjectURL :: "nat \<Rightarrow> string" where
  "createObjectURL k = ''blob:'' @ string_of_nat k"

definition fileThumb :: string where
  "fileThumb =
        ''data:image/png;base64,iVBORw0KGgoAAAANSUhEUgAAAIAAAACACAYAAADDPmHLAA''
      @ ''AACXBIWXMAAAsTAAALEwEAmpwYAAAKT2lDQ1BQaG90b3Nob3AgSUNDIHByb2ZpbGUAAH''
      @ ''janVNnVFPpFj333vRCS4iAlEtvUhUIIFJCi4AUkSYqIQkQSoghodkVUcERRUUEG8igiA''
      @ ''OOjoCMFVEsDIoK2AfkIaKOg6OIisr74Xuja9a89+bN/rXXPues852zzwfACAyWSDNRNY''
      @ ''AMqUIeEeCDx8TG4eQuQIEKJHAAEAizZCFz/SMBAPh+PDwrIsAHvgABeNMLCADATZvAMB''
      @ ''yH/w/qQplcAYCEAcB0kThLCIAUAEB6jkKmAEBGAYCdmCZTAKAEAGDLY2LjAFAtAGAnf+''
      @ ''bTAICd+Jl7AQBblCEVAaCRACATZYhEAGg7AKzPVopFAFgwABRmS8Q5ANgtADBJV2ZIAL''
      @ ''C3AMDOEAuyAAgMADBRiIUpAAR7AGDIIyN4AISZABRG8lc88SuuEOcqAAB4mbI8uSQ5RY''
      @ ''FbCC1xB1dXLh4ozkkXKxQ2YQJhmkAuwnmZGTKBNA/g88wAAKCRFRHgg/P9eM4Ors7ONo''
      @ ''62Dl8t6r8G/yJiYuP+5c+rcEAAAOF0ftH+LC+zGoA7BoBt/qIl7gRoXgugdfeLZrIPQL''
      @ ''UAoOnaV/Nw+H48PEWhkLnZ2eXk5NhKxEJbYcpXff5nwl/AV/1s+X48/Pf14L7iJIEyXY''
      @ ''FHBPjgwsz0TKUcz5IJhGLc5o9H/LcL//wd0yLESWK5WCoU41EScY5EmozzMqUiiUKSKc''
      @ ''Ul0v9k4t8s+wM+3zUAsGo+AXuRLahdYwP2SycQWHTA4vcAAPK7b8HUKAgDgGiD4c93/+''
      @ ''8//UegJQCAZkmScQAAXkQkLlTKsz/HCAAARKCBKrBBG/TBGCzABhzBBdzBC/xgNoRCJM''
      @ ''TCQhBCCmSAHHJgKayCQiiGzbAdKmAv1EAdNMBRaIaTcA4uwlW4Dj1wD/phCJ7BKLyBCQ''
      @ ''RByAgTYSHaiAFiilgjjggXmYX4IcFIBBKLJCDJiBRRIkuRNUgxUopUIFVIHfI9cgI5h1''
      @ ''xGupE7yAAygvyGvEcxlIGyUT3UDLVDuag3GoRGogvQZHQxmo8WoJvQcrQaPYw2oefQq2''
      @ ''gP2o8+Q8cwwOgYBzPEbDAuxsNCsTgsCZNjy7EirAyrxhqwVqwDu4n1Y8+xdwQSgUXACT''
      @ ''YEd0IgYR5BSFhMWE7YSKggHCQ0EdoJNwkDhFHCJyKTqEu0JroR+cQYYjIxh1hILCPWEo''
      @ ''8TLxB7iEPENyQSiUMyJ7mQAkmxpFTSEtJG0m5SI+ksqZs0SBojk8naZGuyBzmULCAryI''
      @ ''XkneTD5DPkG+Qh8lsKnWJAcaT4U+IoUspqShnlEOU05QZlmDJBVaOaUt2ooVQRNY9aQq''
      @ ''2htlKvUYeoEzR1mjnNgxZJS6WtopXTGmgXaPdpr+h0uhHdlR5Ol9BX0svpR+iX6AP0dw''
      @ ''wNhhWDx4hnKBmbGAcYZxl3GK+YTKYZ04sZx1QwNzHrmOeZD5lvVVgqtip8FZHKCpVKlS''
      @ ''aVGyovVKmqpqreqgtV81XLVI+pXlN9rkZVM1PjqQnUlqtVqp1Q61MbU2epO6iHqmeob1''
      @ ''Q/pH5Z/YkGWcNMw09DpFGgsV/jvMYgC2MZs3gsIWsNq4Z1gTXEJrHN2Xx2KruY/R27iz''
      @ ''2qqaE5QzNKM1ezUvOUZj8H45hx+Jx0TgnnKKeX836K3hTvKeIpG6Y0TLkxZVxrqpaXll''
      @ ''irSKtRq0frvTau7aedpr1Fu1n7gQ5Bx0onXCdHZ4/OBZ3nU9lT3acKpxZNPTr1ri6qa6''
      @ ''UbobtEd79up+6Ynr5egJ5Mb6feeb3n+hx9L/1U/W36p/VHDFgGswwkBtsMzhg8xTVxbz''
      @ ''wdL8fb8VFDXcNAQ6VhlWGX4YSRudE8o9VGjUYPjGnGXOMk423GbcajJgYmISZLTepN7p''
      @ ''pSTbmmKaY7TDtMx83MzaLN1pk1mz0x1zLnm+eb15vft2BaeFostqi2uGVJsuRaplnutr''
      @ ''xuhVo5WaVYVVpds0atna0l1rutu6cRp7lOk06rntZnw7Dxtsm2qbcZsOXYBtuutm22fW''
      @ ''FnYhdnt8Wuw+6TvZN9un2N/T0HDYfZDqsdWh1+c7RyFDpWOt6azpzuP33F9JbpL2dYzx''
      @ ''DP2DPjthPLKcRpnVOb00dnF2e5c4PziIuJS4LLLpc+Lpsbxt3IveRKdPVxXeF60vWdm7''
      @ ''Obwu2o26/uNu5p7ofcn8w0nymeWTNz0MPIQ+BR5dE/C5+VMGvfrH5PQ0+BZ7XnIy9jL5''
      @ ''FXrdewt6V3qvdh7xc+9j5yn+M+4zw33jLeWV/MN8C3yLfLT8Nvnl+F30N/I/9k/3r/0Q''
      @ ''CngCUBZwOJgUGBWwL7+Hp8Ib+OPzrbZfay2e1BjKC5QRVBj4KtguXBrSFoyOyQrSH355''
      @ ''jOkc5pDoVQfujW0Adh5mGLw34MJ4WHhVeGP45wiFga0TGXNXfR3ENz30T6RJZE3ptnMU''
      @ ''85ry1KNSo+qi5qPNo3ujS6P8YuZlnM1VidWElsSxw5LiquNm5svt/87fOH4p3iC+N7F5''
      @ ''gvyF1weaHOwvSFpxapLhIsOpZATIhOOJTwQRAqqBaMJfITdyWOCnnCHcJnIi/RNtGI2E''
      @ ''NcKh5O8kgqTXqS7JG8NXkkxTOlLOW5hCepkLxMDUzdmzqeFpp2IG0yPTq9MYOSkZBxQq''
      @ ''ohTZO2Z+pn5mZ2y6xlhbL+xW6Lty8elQfJa7OQrAVZLQq2QqboVFoo1yoHsmdlV2a/zY''
      @ ''nKOZarnivN7cyzytuQN5zvn//tEsIS4ZK2pYZLVy0dWOa9rGo5sjxxedsK4xUFK4ZWBq''
      @ ''w8uIq2Km3VT6vtV5eufr0mek1rgV7ByoLBtQFr6wtVCuWFfevc1+1dT1gvWd+1YfqGnR''
      @ ''s+FYmKrhTbF5cVf9go3HjlG4dvyr+Z3JS0qavEuWTPZtJm6ebeLZ5bDpaql+aXDm4N2d''
      @ ''q0Dd9WtO319kXbL5fNKNu7g7ZDuaO/PLi8ZafJzs07P1SkVPRU+lQ27tLdtWHX+G7R7h''
      @ ''t7vPY07NXbW7z3/T7JvttVAVVN1WbVZftJ+7P3P66Jqun4lvttXa1ObXHtxwPSA/0HIw''
      @ ''6217nU1R3SPVRSj9Yr60cOxx++/p3vdy0NNg1VjZzG4iNwRHnk6fcJ3/ceDTradox7rO''
      @ ''EH0x92HWcdL2pCmvKaRptTmvtbYlu6T8w+0dbq3nr8R9sfD5w0PFl5SvNUyWna6YLTk2''
      @ ''fyz4ydlZ19fi753GDborZ752PO32oPb++6EHTh0kX/i+c7vDvOXPK4dPKy2+UTV7hXmq''
      @ ''86X23qdOo8/pPTT8e7nLuarrlca7nuer21e2b36RueN87d9L158Rb/1tWeOT3dvfN6b/''
      @ ''fF9/XfFt1+cif9zsu72Xcn7q28T7xf9EDtQdlD3YfVP1v+3Njv3H9qwHeg89HcR/cGhY''
      @ ''PP/pH1jw9DBY+Zj8uGDYbrnjg+OTniP3L96fynQ89kzyaeF/6i/suuFxYvfvjV69fO0Z''
      @ ''jRoZfyl5O/bXyl/erA6xmv28bCxh6+yXgzMV70VvvtwXfcdx3vo98PT+R8IH8o/2j5sf''
      @ ''VT0Kf7kxmTk/8EA5jz/GMzLdsAAAAgY0hSTQAAeiUAAICDAAD5/wAAgOkAAHUwAADqYA''
      @ ''AAOpgAABdvkl/FRgAAA5ZJREFUeNrsnNFR4kAch39hfD9KwA64932QVCAVeFQgNLCeaU''
      @ ''CoAK1Ar4E1N5MC0oGUECvgXuIM5+HcEhLIJt/3qAGB78t/k3WGaLvd6lCiKFLbiJNsLu''
      @ ''lO0lDhk0rKJf1y1qS+D6rkMvQA4iQbSlpLulY32UhaOWuWBLBf/quksbrPRtLCWfNSZw''
      @ ''CDUD+NnsmXpJGk5zjJHup80iAnQA/l77tGmDprit5NAORLkq4kPdfxRAPkhxtBHctBME''
      @ ''sA8r9k8nGrWMXlRcfP/KK8nw6FYYX3uJZ02dkJcOSZnzprJgEuc3NJt/Lf1Jo5ax47dx''
      @ ''HYx7HvrCmcNT/Ls9p3et117iKw72t+eYs38YxgFCfZuDMBcMH3TwSFx+E3XZoAa672/4''
      @ ''pg5XFoNyZAnGRd/sdOVZY++wLBB1DK/4HvvVOgkdvZAfKDoehsAMj3opsTAPnevHcuAO''
      @ ''SfnwHyCQD5BIB8AkA+ASCfAJBPAMgnAOQTAPIJAPkEgHwCQD4BIJ8AQpWfo7jhAFp+5r''
      @ ''+juMEAAhj7GxQ3FEAga36K4gYCiJPsOgD5j84aJkBDE+Ch5e+rkHSP3uYCGLX8fS04+0''
      @ ''+8D9AiZs6aR9T2L4BU0nfkH0ZT3xBS6HSbML8lvThrcnS2J4A8tG/mYAkAAgACAAIAAg''
      @ ''ACAAIAAgACAAIAAgACAAIAAgACAAIAAgACAAIAAgACAAIAAgACAAIAAgACAAIAAgACAA''
      @ ''IAAgACAAIAAgACAAIAAgACAAIAAgACAAIAAgACAAIAAgACAAIAAgACAAIAAgACAAIAAg''
      @ ''ACAAIAAgACAAIAAgACAAIAAgACAALoMt8IoN+MQwpgiK8wPtOmAhjHSUYENVF+lq2aAK''
      @ ''nHMXPU1ca8Jie1BZB7HHPLFKjt7L+tyUltATx5rlmvRHC0/FfP9f+pyt+Ittvt4Q+KIs''
      @ ''VJ9iZp5FnmxFlToLSSfJ+1f+Osuazi8uKI13gvae15+/IWJ9lK0pIQvMTPy7E/PMCFTj''
      @ ''oByhfrOwU+TwQi+HrZPPRqf+OsuZSkU08ASZqVY+rsGxo9Zna2fQBnTSppiYOzsSwdVO''
      @ ''aoJWBn3XqWdI2Pk/LirJnu/qCKy7p2AmdVNyKgEumxo7/WCbAzCR7EDuApxv5i3y/OOQ''
      @ ''E+rgkWkqaSNniqnY2k6VfyWzEBPk2Dj3vZEe6OFr9y1vz3YruSy6YC2AlhLOmmvP27wq''
      @ ''f3Gp9LenLW5L4PquLyzwA8s09sGaKyFAAAAABJRU5ErkJggg==''"

subsection \<open>Methods\<close>

definition handleDragOver :: "widget \<Rightarrow> widget" where
  "handleDragOver w = w\<lparr>dragover := True\<rparr>"

definition handleDragLeave :: "widget \<Rightarrow> widget" where
  "handleDragLeave w = w\<lparr>dragover := False\<rparr>"

definition assignFilesToInput :: "js_file list \<Rightarrow> widget \<Rightarrow> widget" where
  "assignFilesToInput files w = w\<lparr>inputFiles := files\<rparr>"

definition resetDisplay :: "widget \<Rightarrow> widget" where
  "resetDisplay w =
     w\<lparr>messageDisplay := ''block'', previewText := [], backgroundImage := []\<rparr>"

definition validateFile :: "js_file \<Rightarrow> widget \<Rightarrow> bool \<times> widget" where
  "validateFile file w =
     (if maxFileSize (options w) > 0 \<and> int (file_size file) > maxFileSize (options w)
      then (False,
            w\<lparr>calls := calls w @ [OnError file (too_large_message (options w) file)]\<rparr>)
      else if file_type file \<notin> set (allowedFileTypes (options w))
              \<and> ''*'' \<notin> set (allowedFileTypes (options w))
      then (False, w\<lparr>calls := calls w @ [OnError file (not_permitted_message file)]\<rparr>)
      else (True, w))"

definition displayFile :: "js_file \<Rightarrow> widget \<Rightarrow> widget" where
  "displayFile file w =
     (let w1 = w\<lparr>messageDisplay := ''none'',
                  backgroundRepeat := ''no-repeat'',
                  backgroundPosition := ''center''\<rparr>
      in if take 6 (file_type file) = ''image/''
         then w1\<lparr>backgroundImage := ''url('' @ createObjectURL (objectURLs w1) @ '')'',
                 objectURLs := Suc (objectURLs w1),
                 backgroundSize := ''cover''\<rparr>
         else
           (let label = toUpperCase (split_pop (file_name file))
            in w1\<lparr>backgroundImage := ''url('' @ fileThumb @ '')'',
                    backgroundSize := ''100px'',
                    previewText := label\<rparr>))"

definition handleFiles :: "js_file list \<Rightarrow> widget \<Rightarrow> widget" where
  "handleFiles files w =
     (case files of
        [] \<Rightarrow> w
      | file # others \<Rightarrow>
          (let r = validateFile file w
           in if fst r
              then (let w2 = displayFile file (snd r)
                    in w2\<lparr>calls := calls w2 @ [OnChanged file]\<rparr>)
              else resetDisplay ((snd r)\<lparr>inputFiles := []\<rparr>)))"

definition handleDrop :: "js_file list \<Rightarrow> widget \<Rightarrow> widget" where
  "handleDrop files w =
     handleFiles files (assignFilesToInput files (w\<lparr>dragover := False\<rparr>))"

text \<open>
  The input's \<^verbatim>\<open>change\<close> event: the browser has put the chosen files
  into the input, and the listener passes them to \<open>handleFiles\<close>.
\<close>

definition fileInput_change :: "js_file list \<Rightarrow> widget \<Rightarrow> widget" where
  "fileInput_change files w = handleFiles files (w\<lparr>inputFiles := files\<rparr>)"

section \<open>Notions the properties are stated with\<close>

text \<open>
  Reading a text such as \<^verbatim>\<open>2.86\<close> back as a number of hundredths, and the
  shape of such a text: digits, a point, two digits.
\<close>

definition read_hundredths :: "string \<Rightarrow> nat" where
  "read_hundredths s =
     100 * nat_of_string (takeWhile (\<lambda>c. c \<noteq> CHR ''.'') s)
       + nat_of_string (drop 1 (dropWhile (\<lambda>c. c \<noteq> CHR ''.'') s))"

definition is_digit :: "char \<Rightarrow> bool" where
  "is_digit c = (48 \<le> (of_char c :: nat) \<and> (of_char c :: nat) \<le> 57)"

definition two_decimals :: "string \<Rightarrow> bool" where
  "two_decimals s =
     (takeWhile (\<lambda>c. c \<noteq> CHR ''.'') s \<noteq> []
      \<and> list_all is_digit (takeWhile (\<lambda>c. c \<noteq> CHR ''.'') s)
      \<and> length (dropWhile (\<lambda>c. c \<noteq> CHR ''.'') s) = 3
      \<and> list_all is_digit (drop 1 (dropWhile (\<lambda>c. c \<noteq> CHR ''.'') s)))"

text \<open>
  What a user sees of the widget: whether the placeholder message is shown
  (its inline \<^verbatim>\<open>display\<close> is not \<^verbatim>\<open>none\<close>), the preview's text and
  the background image of the drop zone.
\<close>

definition placeholder_visible :: "widget \<Rightarrow> bool" where
  "placeholder_visible w = (messageDisplay w \<noteq> ''none'')"

definition display_state :: "widget \<Rightarrow> bool \<times> string \<times> string" where
  "display_state w = (placeholder_visible w, previewText w, backgroundImage w)"

section \<open>Example inputs\<close>

text \<open>
  A file system that is the list of the paths created so far; every move
  succeeds.
\<close>

definition listing_platform :: "string list platform" where
  "listing_platform =
     \<lparr>is_dir = (\<lambda>fs d. d \<in> set fs),
      mkdir = (\<lambda>fs d. d # fs),
      move_uploaded_file = (\<lambda>fs tmp dest. (True, dest # fs))\<rparr>"

definition upload_pdf :: upload where
  "upload_pdf =
     \<lparr>up_error = 0, up_type = ''application/pdf'', up_name = ''a.pdf'',
      up_size = 10, up_tmp_name = ''/tmp/php1''\<rparr>"

definition upload_big :: upload where
  "upload_big =
     \<lparr>up_error = 0, up_type = ''image/png'', up_name = ''big.png'',
      up_size = 3000000, up_tmp_name = ''/tmp/php2''\<rparr>"


definition two_file_request :: request where
  "two_file_request =
     \<lparr>REQUEST_METHOD = ''POST'',
      FILES = [(''upload-container-1'', upload_pdf), (''upload-container-2'', upload_big)],
      POST = [''file_name_1'' \<mapsto> ''report'', ''file_name_2'' \<mapsto> ''picture'']\<rparr>"

text \<open>The two widgets of the demonstration page, and some files.\<close>

definition image_widget :: widget where
  "image_widget =
     constructor
       \<lparr>given_maxFileSize = Some (2 * 1024 * 1024),
        given_allowedFileTypes = Some [''image/jpeg'', ''image/png'', ''image/gif''],
        given_allowCamera = Some True\<rparr>"

definition any_widget :: widget where
  "any_widget =
     constructor
       \<lparr>given_maxFileSize = Some (2 * 1024 * 1024),
        given_allowedFileTypes = Some [''*''],
        given_allowCamera = None\<rparr>"

definition photo_png :: js_file where
  "photo_png = \<lparr>file_name = ''photo.png'', file_type = ''image/png'', file_size = 2048\<rparr>"

definition report_pdf :: js_file where
  "report_pdf =
     \<lparr>file_name = ''report.pdf'', file_type = ''application/pdf'', file_size = 1000\<rparr>"

definition big_exe :: js_file where
  "big_exe =
     \<lparr>file_name = ''setup.exe'', file_type = ''application/x-msdownload'',
      file_size = 3000000\<rparr>"

section \<open>Decimal numerals\<close>

lemma digit_cases:
  "d < 10 \<Longrightarrow>
     d = 0 \<or> d = 1 \<or> d = 2 \<or> d = 3 \<or> d = 4 \<or> d = 5 \<or> d = 6 \<or> d = 7 \<or> d = 8
       \<or> d = (9::nat)"
  by arith

lemma digit_val_digit_char: "d < 10 \<Longrightarrow> digit_val (digit_char d) = d"
  by (drule digit_cases) (auto simp add: digit_val_def digit_char_def)

lemma digit_char_not_dot: "d < 10 \<Longrightarrow> digit_char d \<noteq> CHR ''.''"
  by (drule digit_cases) (auto simp add: digit_char_def)

lemma is_digit_digit_char: "d < 10 \<Longrightarrow> is_digit (digit_char d)"
  by (drule digit_cases) (auto simp add: is_digit_def digit_char_def)

lemma nat_of_string_snoc:
  "nat_of_string (s @ [c]) = 10 * nat_of_string s + digit_val c"
  by (simp add: nat_of_string_def)

text \<open>Reading the numeral of \<open>n\<close> gives \<open>n\<close> back.\<close>

lemma nat_of_string_of_nat: "nat_of_string (string_of_nat n) = n"
proof (induction n rule: string_of_nat.induct)
  case (1 n)
  show ?case
  proof (cases "n < 10")
    case True
    then show ?thesis
      by (subst string_of_nat.simps) (simp add: nat_of_string_def digit_val_digit_char)
  next
    case False
    with 1 have "nat_of_string (string_of_nat (n div 10)) = n div 10"
      by simp
    with False show ?thesis
      by (subst string_of_nat.simps) (simp add: nat_of_string_snoc digit_val_digit_char)
  qed
qed

lemma string_of_nat_no_dot: "CHR ''.'' \<notin> set (string_of_nat n)"
proof (induction n rule: string_of_nat.induct)
  case (1 n)
  show ?case
  proof (cases "n < 10")
    case True
    then show ?thesis
      using digit_char_not_dot [of n] by (subst string_of_nat.simps) auto
  next
    case False
    with 1 have "CHR ''.'' \<notin> set (string_of_nat (n div 10))"
      by simp
    with False show ?thesis
      using digit_char_not_dot [of "n mod 10"] by (subst string_of_nat.simps) auto
  qed
qed

lemma string_of_nat_digits: "list_all is_digit (string_of_nat n)"
proof (induction n rule: string_of_nat.induct)
  case (1 n)
  show ?case
  proof (cases "n < 10")
    case True
    then show ?thesis
      by (subst string_of_nat.simps) (simp add: is_digit_digit_char)
  next
    case False
    with 1 have "list_all is_digit (string_of_nat (n div 10))"
      by simp
    with False show ?thesis
      by (subst string_of_nat.simps) (simp add: is_digit_digit_char)
  qed
qed

lemma string_of_nat_not_Nil: "string_of_nat n \<noteq> []"
  by (subst string_of_nat.simps) simp

lemma takeWhile_until:
  "c \<notin> set a \<Longrightarrow> takeWhile (\<lambda>x. x \<noteq> c) (a @ c # r) = a"
  by (induction a) auto

lemma dropWhile_until:
  "c \<notin> set a \<Longrightarrow> dropWhile (\<lambda>x. x \<noteq> c) (a @ c # r) = c # r"
  by (induction a) auto

lemma two_digits:
  "nat_of_string [digit_char (n mod 100 div 10), digit_char (n mod 10)] = n mod 100"
proof -
  have a: "n mod 100 div 10 < 10"
    using div_less_iff_less_mult [of 10 "n mod 100" 10] by simp
  have b: "n mod 10 < 10"
    by simp
  have "n mod 100 mod 10 = n mod 10"
    by (rule mod_mod_cancel) simp
  then have c: "10 * (n mod 100 div 10) + n mod 10 = n mod 100"
    using mult_div_mod_eq [of 10 "n mod 100"] by simp
  have "nat_of_string [digit_char (n mod 100 div 10), digit_char (n mod 10)]
          = 10 * digit_val (digit_char (n mod 100 div 10)) + digit_val (digit_char (n mod 10))"
    by (simp add: nat_of_string_def)
  also have "\<dots> = 10 * (n mod 100 div 10) + n mod 10"
    by (simp only: digit_val_digit_char [OF a] digit_val_digit_char [OF b])
  finally show ?thesis
    using c by simp
qed

subsection \<open>The text that toFixed(2) gives for a byte count in MB\<close>

lemma toFixed2_MB_parts:
  "takeWhile (\<lambda>c. c \<noteq> CHR ''.'') (toFixed2_MB x) = string_of_nat (hundredths_MB x div 100)
   \<and> dropWhile (\<lambda>c. c \<noteq> CHR ''.'') (toFixed2_MB x) =
       [CHR ''.'', digit_char (hundredths_MB x mod 100 div 10),
        digit_char (hundredths_MB x mod 10)]"
proof -
  define n where "n = hundredths_MB x"
  define r where "r = [digit_char (n mod 100 div 10), digit_char (n mod 10)]"
  have t: "toFixed2_MB x = string_of_nat (n div 100) @ CHR ''.'' # r"
    by (simp add: toFixed2_MB_def Let_def n_def r_def)
  have "takeWhile (\<lambda>c. c \<noteq> CHR ''.'') (toFixed2_MB x) = string_of_nat (n div 100)"
    unfolding t using string_of_nat_no_dot [of "n div 100"] by (rule takeWhile_until)
  moreover have "dropWhile (\<lambda>c. c \<noteq> CHR ''.'') (toFixed2_MB x) = CHR ''.'' # r"
    unfolding t using string_of_nat_no_dot [of "n div 100"] by (rule dropWhile_until)
  ultimately show ?thesis
    unfolding n_def r_def by simp
qed

lemma read_hundredths_toFixed2_MB: "read_hundredths (toFixed2_MB x) = hundredths_MB x"
proof -
  have "read_hundredths (toFixed2_MB x)
          = 100 * (hundredths_MB x div 100) + hundredths_MB x mod 100"
    unfolding read_hundredths_def
    by (simp add: toFixed2_MB_parts nat_of_string_of_nat two_digits)
  then show ?thesis
    by simp
qed

lemma two_decimals_toFixed2_MB: "two_decimals (toFixed2_MB x)"
proof -
  have a: "hundredths_MB x mod 100 div 10 < 10"
    using div_less_iff_less_mult [of 10 "hundredths_MB x mod 100" 10] by simp
  have b: "hundredths_MB x mod 10 < 10"
    by simp
  show ?thesis
    unfolding two_decimals_def
    by (simp add: toFixed2_MB_parts string_of_nat_digits string_of_nat_not_Nil
          is_digit_digit_char [OF a] is_digit_digit_char [OF b])
qed

lemma hundredths_MB_bounds:
  "1048576 * hundredths_MB x \<le> x * 100 + 524288
   \<and> x * 100 + 524288 < 1048576 * hundredths_MB x + 1048576"
proof -
  have m: "(x * 100 + 524288) mod 1048576 < 1048576"
    by simp
  have e: "1048576 * ((x * 100 + 524288) div 1048576) + (x * 100 + 524288) mod 1048576
             = x * 100 + 524288"
    by (rule mult_div_mod_eq)
  show ?thesis
    unfolding hundredths_MB_def using m e by linarith
qed

text \<open>The number of hundredths is the nearest one to \<open>x / 2 ^ 20\<close>.\<close>

lemma hundredths_MB_nearest:
  "\<bar>real (hundredths_MB x) / 100 - real x / (1024 * 1024)\<bar> \<le> 1 / 200"
proof -
  define n where "n = hundredths_MB x"
  define d where "d = real n / 100 - real x / (1024 * 1024)"
  have "real (1048576 * n) \<le> real (x * 100 + 524288)"
    unfolding n_def using hundredths_MB_bounds [of x] by (simp only: of_nat_le_iff)
  then have lo: "1048576 * real n \<le> real x * 100 + 524288"
    by simp
  have "real (x * 100 + 524288) < real (1048576 * n + 1048576)"
    unfolding n_def using hundredths_MB_bounds [of x] by (simp only: of_nat_less_iff)
  then have hi: "real x * 100 + 524288 < 1048576 * real n + 1048576"
    by simp
  have s: "104857600 * d = 1048576 * real n - 100 * real x"
    unfolding d_def by simp
  have "d \<le> 1 / 200" and "- (1 / 200) \<le> d"
    using lo hi s by linarith+
  then have "\<bar>d\<bar> \<le> 1 / 200"
    by linarith
  then show ?thesis
    unfolding d_def n_def .
qed

lemma toFixed2_MB_rounds:
  "two_decimals (toFixed2_MB x)
   \<and> \<bar>real (read_hundredths (toFixed2_MB x)) / 100 - real x / (1024 * 1024)\<bar> \<le> 1 / 200"
  by (simp only: two_decimals_toFixed2_MB read_hundredths_toFixed2_MB hundredths_MB_nearest)

section \<open>The widget: validation and display\<close>

lemma displayFile_calls: "calls (displayFile f w) = calls w"
  by (simp add: displayFile_def Let_def)

text \<open>
  The two messages of \<open>validateFile\<close> never coincide: one ends in
  \<^verbatim>\<open>MB.\<close>, the other in \<^verbatim>\<open>type.\<close>
\<close>

lemma too_large_neq_not_permitted:
  "too_large_message opts f \<noteq> not_permitted_message g"
proof
  assume "too_large_message opts f = not_permitted_message g"
  then have "take 3 (rev (too_large_message opts f)) = take 3 (rev (not_permitted_message g))"
    by simp
  then show False
    by (simp add: too_large_message_def not_permitted_message_def)
qed

lemma image_widget_options:
  "maxFileSize (options image_widget) = 2097152
   \<and> allowedFileTypes (options image_widget) = [''image/jpeg'', ''image/png'', ''image/gif'']
   \<and> calls image_widget = []"
  by (simp add: image_widget_def constructor_def make_options_def)

lemma any_widget_options:
  "maxFileSize (options any_widget) = 2097152
   \<and> allowedFileTypes (options any_widget) = [''*'']
   \<and> calls any_widget = [] \<and> objectURLs any_widget = 0 \<and> previewText any_widget = []"
  by (simp add: any_widget_def constructor_def make_options_def)

lemma toFixed2_MB_examples:
  "toFixed2_MB 2097152 = ''2.00'' \<and> toFixed2_MB 3000000 = ''2.86''"
  by (simp add: toFixed2_MB_def hundredths_MB_def string_of_nat.simps digit_char_def)

text \<open>
  Claim C4. \<open>validateFile\<close> checks in a fixed order. When the configured
  maximum is positive and the file is larger, it rejects with the size message,
  whatever the MIME type is, and that message is not the type message.
  Otherwise, when the MIME type is not in the allowed list and the list has no
  \<^verbatim>\<open>*\<close>, it rejects with the type message. Otherwise it accepts and calls no
  callback.
\<close>

theorem validateFile_order:
  "(0 < maxFileSize (options w) \<and> maxFileSize (options w) < int (file_size f) \<longrightarrow>
      validateFile f w =
        (False, w\<lparr>calls := calls w @ [OnError f (too_large_message (options w) f)]\<rparr>)
      \<and> too_large_message (options w) f \<noteq> not_permitted_message f)
   \<and> (\<not> (0 < maxFileSize (options w) \<and> maxFileSize (options w) < int (file_size f))
        \<and> file_type f \<notin> set (allowedFileTypes (options w))
        \<and> ''*'' \<notin> set (allowedFileTypes (options w)) \<longrightarrow>
      validateFile f w =
        (False, w\<lparr>calls := calls w @ [OnError f (not_permitted_message f)]\<rparr>))
   \<and> (\<not> (0 < maxFileSize (options w) \<and> maxFileSize (options w) < int (file_size f))
        \<and> (file_type f \<in> set (allowedFileTypes (options w))
             \<or> ''*'' \<in> set (allowedFileTypes (options w))) \<longrightarrow>
      validateFile f w = (True, w))"
  using too_large_neq_not_permitted [of "options w" f f]
  by (simp add: validateFile_def)

theorem validateFile_order_witness:
  "0 < maxFileSize (options image_widget)
   \<and> maxFileSize (options image_widget) < int (file_size big_exe)
   \<and> file_type big_exe \<notin> set (allowedFileTypes (options image_widget))
   \<and> validateFile big_exe image_widget =
       (False, image_widget\<lparr>calls :=
          [OnError big_exe (too_large_message (options image_widget) big_exe)]\<rparr>)
   \<and> validateFile report_pdf image_widget =
       (False, image_widget\<lparr>calls := [OnError report_pdf (not_permitted_message report_pdf)]\<rparr>)
   \<and> validateFile photo_png image_widget = (True, image_widget)"
proof -
  have big: "0 < maxFileSize (options image_widget)
             \<and> maxFileSize (options image_widget) < int (file_size big_exe)"
    by (simp add: image_widget_options big_exe_def)
  have ty: "file_type big_exe \<notin> set (allowedFileTypes (options image_widget))"
    by (simp add: image_widget_options big_exe_def)
  have pdf: "\<not> (0 < maxFileSize (options image_widget)
                 \<and> maxFileSize (options image_widget) < int (file_size report_pdf))
             \<and> file_type report_pdf \<notin> set (allowedFileTypes (options image_widget))
             \<and> ''*'' \<notin> set (allowedFileTypes (options image_widget))"
    by (simp add: image_widget_options report_pdf_def)
  have png: "\<not> (0 < maxFileSize (options image_widget)
                 \<and> maxFileSize (options image_widget) < int (file_size photo_png))
             \<and> (file_type photo_png \<in> set (allowedFileTypes (options image_widget))
                  \<or> ''*'' \<in> set (allowedFileTypes (options image_widget)))"
    by (simp add: image_widget_options photo_png_def)
  show ?thesis
    using big ty pdf png
      validateFile_order [of image_widget big_exe]
      validateFile_order [of image_widget report_pdf]
      validateFile_order [of image_widget photo_png]
    by (simp add: image_widget_options)
qed

text \<open>
  Claim C5. When the first file handed to \<open>handleFiles\<close> is within the
  configured maximum (or the maximum is 0) and its MIME type is allowed (or the
  list has \<^verbatim>\<open>*\<close>), validation accepts it and calls nothing, and
  \<open>handleFiles\<close> adds exactly one callback call: \<open>onChanged\<close> with that file.
  No \<open>onError\<close> is added. The same holds when the files arrive by a drop or
  by the file picker's \<^verbatim>\<open>change\<close> event.
\<close>

theorem valid_file_accepted:
  assumes "maxFileSize (options w) = 0 \<or> int (file_size f) \<le> maxFileSize (options w)"
    and "file_type f \<in> set (allowedFileTypes (options w))
         \<or> ''*'' \<in> set (allowedFileTypes (options w))"
  shows "validateFile f w = (True, w)
         \<and> calls (handleFiles (f # others) w) = calls w @ [OnChanged f]
         \<and> calls (handleDrop (f # others) w) = calls w @ [OnChanged f]
         \<and> calls (fileInput_change (f # others) w) = calls w @ [OnChanged f]"
proof -
  have v: "validateFile f w' = (True, w')" if "options w' = options w" for w'
    using assms that by (auto simp add: validateFile_def)
  have h: "calls (handleFiles (f # others) w') = calls w' @ [OnChanged f]"
    if "options w' = options w" for w'
    by (simp add: handleFiles_def Let_def displayFile_calls v [OF that])
  have "calls (handleDrop (f # others) w) = calls w @ [OnChanged f]"
    unfolding handleDrop_def assignFilesToInput_def by (subst h) simp_all
  moreover have "calls (fileInput_change (f # others) w) = calls w @ [OnChanged f]"
    unfolding fileInput_change_def by (subst h) simp_all
  ultimately show ?thesis
    using v [of w] h [of w] by simp
qed

theorem valid_file_accepted_witness:
  "int (file_size photo_png) \<le> maxFileSize (options image_widget)
   \<and> file_type photo_png \<in> set (allowedFileTypes (options image_widget))
   \<and> validateFile photo_png image_widget = (True, image_widget)
   \<and> calls (handleFiles [photo_png, report_pdf] image_widget) = [OnChanged photo_png]
   \<and> calls (handleDrop [photo_png, report_pdf] image_widget) = [OnChanged photo_png]"
proof -
  have a: "maxFileSize (options image_widget) = 0
           \<or> int (file_size photo_png) \<le> maxFileSize (options image_widget)"
    by (simp add: image_widget_options photo_png_def)
  have b: "file_type photo_png \<in> set (allowedFileTypes (options image_widget))
           \<or> ''*'' \<in> set (allowedFileTypes (options image_widget))"
    by (simp add: image_widget_options photo_png_def)
  show ?thesis
    using valid_file_accepted [OF a b, of "[report_pdf]"]
    by (simp add: image_widget_options photo_png_def)
qed

text \<open>
  Claim C6. When the configured maximum is positive and the file is larger,
  validation rejects and \<open>handleFiles\<close> adds exactly one callback call:
  \<open>onError\<close> with the file and a message that holds the limit and the file's
  size, each as \<^verbatim>\<open>toFixed(2)\<close> prints the byte count divided by
  \<open>1024 * 1024\<close>. Each of the two texts has two decimals and reads as a number
  within half a hundredth of the exact quotient.
\<close>

theorem too_large_rejected:
  assumes "0 < maxFileSize (options w)"
    and "maxFileSize (options w) < int (file_size f)"
  shows "fst (validateFile f w) = False
    \<and> calls (handleFiles (f # others) w) =
        calls w @
          [OnError f
             (''The file '' @ file_name f @ '' is too large (maximum size is ''
                @ toFixed2_MB (nat (maxFileSize (options w))) @ ''MB). Your file is ''
                @ toFixed2_MB (file_size f) @ ''MB.'')]
    \<and> two_decimals (toFixed2_MB (nat (maxFileSize (options w))))
    \<and> \<bar>real (read_hundredths (toFixed2_MB (nat (maxFileSize (options w))))) / 100
          - real_of_int (maxFileSize (options w)) / (1024 * 1024)\<bar> \<le> 1 / 200
    \<and> two_decimals (toFixed2_MB (file_size f))
    \<and> \<bar>real (read_hundredths (toFixed2_MB (file_size f))) / 100
          - real (file_size f) / (1024 * 1024)\<bar> \<le> 1 / 200"
proof -
  from assms have v: "validateFile f w =
      (False, w\<lparr>calls := calls w @ [OnError f (too_large_message (options w) f)]\<rparr>)"
    by (simp add: validateFile_def)
  have c: "calls (handleFiles (f # others) w) =
             calls w @ [OnError f (too_large_message (options w) f)]"
    by (simp add: handleFiles_def Let_def v resetDisplay_def)
  from assms(1) have m: "real_of_int (maxFileSize (options w)) = real (nat (maxFileSize (options w)))"
    by simp
  show ?thesis
    unfolding m
    using toFixed2_MB_rounds [of "nat (maxFileSize (options w))"]
      toFixed2_MB_rounds [of "file_size f"]
    by (simp add: v c too_large_message_def)
qed

theorem too_large_rejected_witness:
  "0 < maxFileSize (options image_widget)
   \<and> maxFileSize (options image_widget) < int (file_size big_exe)
   \<and> fst (validateFile big_exe image_widget) = False
   \<and> calls (handleFiles [big_exe] image_widget) =
       [OnError big_exe
          ''The file setup.exe is too large (maximum size is 2.00MB). Your file is 2.86MB.'']
   \<and> read_hundredths ''2.00'' = 200 \<and> read_hundredths ''2.86'' = 286"
proof -
  have a: "0 < maxFileSize (options image_widget)"
    by (simp add: image_widget_options)
  have b: "maxFileSize (options image_widget) < int (file_size big_exe)"
    by (simp add: image_widget_options big_exe_def)
  have r: "read_hundredths ''2.00'' = 200 \<and> read_hundredths ''2.86'' = 286"
    by (simp add: read_hundredths_def nat_of_string_def digit_val_def)
  have n: "file_name big_exe = ''setup.exe'' \<and> file_size big_exe = 3000000"
    by (simp add: big_exe_def)
  show ?thesis
    using a b r too_large_rejected [OF a b, of "[]"]
    by (simp add: image_widget_options n toFixed2_MB_examples)
qed

text \<open>
  Claim C9. When validation rejects the first file handed to \<open>handleFiles\<close>,
  the widget has called \<open>onError\<close> once, with the file and the message of the
  failed check, the hidden input holds no file, the placeholder message is
  shown again (\<^verbatim>\<open>display: block\<close>), and the preview's text and the background
  image are empty; nothing else of the widget changes. What the user sees
  (placeholder, preview text, background image) is what a newly constructed
  widget shows.
\<close>

theorem rejected_file_resets:
  assumes "\<not> fst (validateFile f w)"
  shows "handleFiles (f # others) w =
           w\<lparr>calls := calls w @
                  [OnError f
                     (if 0 < maxFileSize (options w)
                           \<and> maxFileSize (options w) < int (file_size f)
                      then too_large_message (options w) f
                      else not_permitted_message f)],
             inputFiles := [],
             messageDisplay := ''block'',
             previewText := [],
             backgroundImage := []\<rparr>
         \<and> display_state (handleFiles (f # others) w) = display_state (constructor g)"
proof (cases "0 < maxFileSize (options w) \<and> maxFileSize (options w) < int (file_size f)")
  case True
  then have v: "validateFile f w =
      (False, w\<lparr>calls := calls w @ [OnError f (too_large_message (options w) f)]\<rparr>)"
    by (simp add: validateFile_def)
  from True show ?thesis
    by (simp add: handleFiles_def Let_def v resetDisplay_def display_state_def
          placeholder_visible_def constructor_def)
next
  case False
  with assms have "file_type f \<notin> set (allowedFileTypes (options w))
                   \<and> ''*'' \<notin> set (allowedFileTypes (options w))"
    by (simp add: validateFile_def split: if_splits)
  with False have v: "validateFile f w =
      (False, w\<lparr>calls := calls w @ [OnError f (not_permitted_message f)]\<rparr>)"
    by (auto simp add: validateFile_def)
  from False show ?thesis
    by (auto simp add: handleFiles_def Let_def v resetDisplay_def display_state_def
          placeholder_visible_def constructor_def)
qed

lemma any_widget_after_pdf:
  "options (handleFiles [report_pdf] any_widget) = options any_widget
   \<and> calls (handleFiles [report_pdf] any_widget) = [OnChanged report_pdf]
   \<and> previewText (handleFiles [report_pdf] any_widget) = ''PDF''
   \<and> messageDisplay (handleFiles [report_pdf] any_widget) = ''none''
   \<and> backgroundImage (handleFiles [report_pdf] any_widget) = ''url('' @ fileThumb @ '')''
   \<and> objectURLs (handleFiles [report_pdf] any_widget) = 0"
proof -
  have v: "validateFile report_pdf any_widget = (True, any_widget)"
    by (simp add: validateFile_def any_widget_options report_pdf_def)
  have l: "toUpperCase (split_pop (file_name report_pdf)) = ''PDF''"
    by (simp add: report_pdf_def toUpperCase_def split_pop_def toUpperCase_char_def)
  have t: "take 6 (file_type report_pdf) \<noteq> ''image/''"
    by (simp add: report_pdf_def)
  show ?thesis
    by (simp add: handleFiles_def Let_def v displayFile_def l t any_widget_options)
qed

theorem rejected_file_resets_witness:
  "\<not> fst (validateFile big_exe (handleFiles [report_pdf] any_widget))
   \<and> display_state (handleFiles [report_pdf] any_widget)
        = (False, ''PDF'', ''url('' @ fileThumb @ '')'')
   \<and> calls (handleFiles [big_exe] (handleFiles [report_pdf] any_widget)) =
       [OnChanged report_pdf,
        OnError big_exe
          ''The file setup.exe is too large (maximum size is 2.00MB). Your file is 2.86MB.'']
   \<and> inputFiles (handleFiles [big_exe] (handleFiles [report_pdf] any_widget)) = []
   \<and> display_state (handleFiles [big_exe] (handleFiles [report_pdf] any_widget))
        = (True, [], [])"
proof -
  define w where "w = handleFiles [report_pdf] any_widget"
  have o: "maxFileSize (options w) = 2097152"
    unfolding w_def by (simp add: any_widget_after_pdf any_widget_options)
  have a: "\<not> fst (validateFile big_exe w)"
    by (simp add: validateFile_def o big_exe_def)
  have m: "too_large_message (options w) big_exe =
      ''The file setup.exe is too large (maximum size is 2.00MB). Your file is 2.86MB.''"
    by (simp add: too_large_message_def o big_exe_def toFixed2_MB_examples)
  have d: "display_state w = (False, ''PDF'', ''url('' @ fileThumb @ '')'')"
    unfolding w_def
    by (simp add: display_state_def placeholder_visible_def any_widget_after_pdf)
  have c: "calls w = [OnChanged report_pdf]"
    unfolding w_def by (simp add: any_widget_after_pdf)
  have i: "display_state (constructor g) = (True, [], [])" for g
    by (simp add: display_state_def placeholder_visible_def constructor_def)
  have s: "0 < maxFileSize (options w) \<and> maxFileSize (options w) < int (file_size big_exe)"
    by (simp add: o big_exe_def)
  note r = rejected_file_resets [OF a, of "[]" "\<lparr>given_maxFileSize = None,
    given_allowedFileTypes = None, given_allowCamera = None\<rparr>"]
  have r1: "calls (handleFiles [big_exe] w) =
      [OnChanged report_pdf,
       OnError big_exe
         ''The file setup.exe is too large (maximum size is 2.00MB). Your file is 2.86MB.'']"
    by (simp add: r [THEN conjunct1] s c m)
  have r2: "inputFiles (handleFiles [big_exe] w) = []"
    by (simp add: r [THEN conjunct1])
  have r3: "display_state (handleFiles [big_exe] w) = (True, [], [])"
    by (simp only: r [THEN conjunct2] i)
  show ?thesis
    unfolding w_def [symmetric] using a d r1 r2 r3 by simp
qed

text \<open>
  Claim C8, at the input where the code departs from it. Both files are
  accepted by the widget that allows every type. After the PDF the preview's
  text is \<^verbatim>\<open>PDF\<close>; after the image that follows it, the text is still
  \<^verbatim>\<open>PDF\<close>, while the same image selected on a new widget leaves it empty.
\<close>

theorem stale_preview_text:
  "calls (handleFiles [photo_png] (handleFiles [report_pdf] any_widget))
     = [OnChanged report_pdf, OnChanged photo_png]
   \<and> previewText (handleFiles [photo_png] (handleFiles [report_pdf] any_widget)) = ''PDF''
   \<and> backgroundImage (handleFiles [photo_png] (handleFiles [report_pdf] any_widget))
       = ''url(blob:0)''
   \<and> previewText (handleFiles [photo_png] any_widget) = []"
proof -
  define w where "w = handleFiles [report_pdf] any_widget"
  have o: "options w = options any_widget"
    unfolding w_def by (simp add: any_widget_after_pdf)
  have v: "validateFile photo_png w = (True, w)"
    by (simp add: validateFile_def o any_widget_options photo_png_def)
  have v0: "validateFile photo_png any_widget = (True, any_widget)"
    by (simp add: validateFile_def any_widget_options photo_png_def)
  have t: "take 6 (file_type photo_png) = ''image/''"
    by (simp add: photo_png_def)
  have u: "objectURLs w = 0"
    unfolding w_def by (simp add: any_widget_after_pdf)
  have b: "createObjectURL 0 = ''blob:0''"
    by (simp add: createObjectURL_def string_of_nat.simps digit_char_def)
  have c: "calls w = [OnChanged report_pdf]" and p: "previewText w = ''PDF''"
    unfolding w_def by (simp_all add: any_widget_after_pdf)
  have p0: "previewText any_widget = []"
    by (simp add: any_widget_def constructor_def)
  show ?thesis
    unfolding w_def [symmetric]
    by (simp add: handleFiles_def Let_def v v0 displayFile_def t u b c p p0)
qed

section \<open>The endpoint\<close>

subsection \<open>One message for each file\<close>

lemma collect_messages_fst_Cons:
  "fst (collect_messages p post fs ((key, f) # rest)) =
     message (uploadFile p fs f (fileName post key))
       # fst (collect_messages p post
                (filesystem (uploadFile p fs f (fileName post key))) rest)"
  by (simp add: Let_def)

lemma collect_messages_snd_Cons:
  "snd (collect_messages p post fs ((key, f) # rest)) =
     snd (collect_messages p post
            (filesystem (uploadFile p fs f (fileName post key))) rest)"
  by (simp add: Let_def)

lemma collect_messages_length:
  "length (fst (collect_messages p post fs files)) = length files"
proof (induction files arbitrary: fs)
  case Nil
  then show ?case
    by simp
next
  case (Cons a files)
  obtain key f where a: "a = (key, f)"
    by (cases a)
  show ?case
    unfolding a collect_messages_fst_Cons by (simp add: Cons.IH)
qed

text \<open>
  The message at position \<open>i\<close> is the one \<open>uploadFile\<close> gives for the
  \<open>i\<close>-th file, called on the file system the files before it left.
\<close>

lemma collect_messages_nth:
  "i < length files \<Longrightarrow>
     fst (collect_messages p post fs files) ! i =
       message (uploadFile p (snd (collect_messages p post fs (take i files)))
                  (snd (files ! i)) (fileName post (fst (files ! i))))"
proof (induction files arbitrary: fs i)
  case Nil
  then show ?case
    by simp
next
  case (Cons a files)
  obtain key f where a: "a = (key, f)"
    by (cases a)
  show ?case
  proof (cases i)
    case 0
    then show ?thesis
      unfolding a collect_messages_fst_Cons by simp
  next
    case (Suc j)
    with Cons.prems have "j < length files"
      by simp
    from Cons.IH [OF this] show ?thesis
      unfolding a Suc collect_messages_fst_Cons
      by (simp only: nth_Cons_Suc take_Suc_Cons collect_messages_snd_Cons)
  qed
qed

text \<open>A file over the size limit: the message does not depend on the file system.\<close>

lemma failure_line:
  assumes "maxFileSize_php < up_size f"
  shows "uploadFile p fs f n =
     \<lparr>message =
        (if up_error f \<noteq> UPLOAD_ERR_OK
         then ''There was an error uploading the file: '' @ string_of_nat (up_error f)
         else if \<not> in_array (up_type f) allowedFileTypes_php
         then ''File type not allowed: '' @ up_type f
         else ''File is too large: '' @ up_name f),
      filesystem = fs, diagnostics = []\<rparr>"
  using assms by (simp add: uploadFile_def)

lemma success_line:
  assumes "up_error f = UPLOAD_ERR_OK" and "in_array (up_type f) allowedFileTypes_php"
    and "up_size f \<le> maxFileSize_php"
    and "fst (move_uploaded_file p
               (if is_dir p fs uploadDir then fs else mkdir p fs uploadDir)
               (up_tmp_name f) (uploadFilePath f n))"
  shows "message (uploadFile p fs f n) =
           ''File uploaded successfully: '' @ htmlspecialchars (resolveFileName f n)"
  using assms by (cases "is_dir p fs uploadDir") (simp_all add: uploadFile_def Let_def)

text \<open>
  Claim C7. For a POST request the response is the messages of the files, each
  followed by \<^verbatim>\<open><br>\<close>, one for each entry of \<^verbatim>\<open>$_FILES\<close> and in that order;
  the message at each position is the result of \<open>uploadFile\<close> on the file at
  that position, whatever happened to the files before it. In particular, when
  two files are submitted, the first valid and moved successfully and the second
  over the size limit, the response is the success line of the first followed by
  the failure line of the second.
\<close>

theorem one_line_per_file:
  assumes "REQUEST_METHOD req = ''POST''"
  shows "fst (handle_request p fs req) =
           concat (map (\<lambda>m. m @ ''<br>'') (fst (collect_messages p (POST req) fs (FILES req))))
    \<and> length (fst (collect_messages p (POST req) fs (FILES req))) = length (FILES req)
    \<and> (\<forall>i<length (FILES req).
          fst (collect_messages p (POST req) fs (FILES req)) ! i =
            message (uploadFile p (snd (collect_messages p (POST req) fs (take i (FILES req))))
                       (snd (FILES req ! i)) (fileName (POST req) (fst (FILES req ! i)))))
    \<and> (\<forall>k1 f1 k2 f2.
          FILES req = [(k1, f1), (k2, f2)]
          \<and> up_error f1 = UPLOAD_ERR_OK \<and> in_array (up_type f1) allowedFileTypes_php
          \<and> up_size f1 \<le> maxFileSize_php
          \<and> fst (move_uploaded_file p
                    (if is_dir p fs uploadDir then fs else mkdir p fs uploadDir)
                    (up_tmp_name f1) (uploadFilePath f1 (fileName (POST req) k1)))
          \<and> maxFileSize_php < up_size f2 \<longrightarrow>
          fst (handle_request p fs req) =
            ''File uploaded successfully: ''
              @ htmlspecialchars (resolveFileName f1 (fileName (POST req) k1)) @ ''<br>''
              @ (if up_error f2 \<noteq> UPLOAD_ERR_OK
                 then ''There was an error uploading the file: '' @ string_of_nat (up_error f2)
                 else if \<not> in_array (up_type f2) allowedFileTypes_php
                 then ''File type not allowed: '' @ up_type f2
                 else ''File is too large: '' @ up_name f2)
              @ ''<br>'')"
proof -
  have out: "fst (handle_request p fs req) =
      concat (map (\<lambda>m. m @ ''<br>'') (fst (collect_messages p (POST req) fs (FILES req))))"
    using assms by (simp add: handle_request_def echo_messages_def Let_def)
  have two: "fst (handle_request p fs req) =
            ''File uploaded successfully: ''
              @ htmlspecialchars (resolveFileName f1 (fileName (POST req) k1)) @ ''<br>''
              @ (if up_error f2 \<noteq> UPLOAD_ERR_OK
                 then ''There was an error uploading the file: '' @ string_of_nat (up_error f2)
                 else if \<not> in_array (up_type f2) allowedFileTypes_php
                 then ''File type not allowed: '' @ up_type f2
                 else ''File is too large: '' @ up_name f2)
              @ ''<br>''"
    if fl: "FILES req = [(k1, f1), (k2, f2)]"
      and ok: "up_error f1 = UPLOAD_ERR_OK" "in_array (up_type f1) allowedFileTypes_php"
        "up_size f1 \<le> maxFileSize_php"
        "fst (move_uploaded_file p
               (if is_dir p fs uploadDir then fs else mkdir p fs uploadDir)
               (up_tmp_name f1) (uploadFilePath f1 (fileName (POST req) k1)))"
      and big: "maxFileSize_php < up_size f2"
    for k1 f1 k2 f2
  proof -
    have "fst (collect_messages p (POST req) fs [(k1, f1), (k2, f2)]) =
        [''File uploaded successfully: ''
           @ htmlspecialchars (resolveFileName f1 (fileName (POST req) k1)),
         (if up_error f2 \<noteq> UPLOAD_ERR_OK
          then ''There was an error uploading the file: '' @ string_of_nat (up_error f2)
          else if \<not> in_array (up_type f2) allowedFileTypes_php
          then ''File type not allowed: '' @ up_type f2
          else ''File is too large: '' @ up_name f2)]"
      unfolding collect_messages_fst_Cons success_line [OF ok] failure_line [OF big]
      by simp
    then show ?thesis
      unfolding out fl by simp
  qed
  show ?thesis
    using out collect_messages_length [of p "POST req" fs "FILES req"]
      collect_messages_nth [of _ "FILES req" p "POST req" fs] two
    by blast
qed

lemma fileName_examples:
  "fileName (POST two_file_request) ''upload-container-1'' = ''report''
   \<and> fileName (POST two_file_request) ''upload-container-2'' = ''picture''"
  by (simp add: fileName_def inputName_def two_file_request_def php_str_def)

lemma resolve_report_pdf:
  "resolveFileName upload_pdf ''report'' = ''report.pdf''"
  by (simp add: resolveFileName_def upload_pdf_def fileExtension_def
        pathinfo_EXTENSION_def pathinfo_extension_key_def basename_def php_str_def
        php_empty_def)

theorem one_line_per_file_witness:
  "REQUEST_METHOD two_file_request = ''POST''
   \<and> up_size upload_pdf \<le> maxFileSize_php \<and> maxFileSize_php < up_size upload_big
   \<and> fst (handle_request listing_platform [] two_file_request) =
        ''File uploaded successfully: report.pdf<br>File is too large: big.png<br>''
   \<and> fst (collect_messages listing_platform (POST two_file_request) []
             (FILES two_file_request)) ! 1 = ''File is too large: big.png''"
proof -
  have m: "REQUEST_METHOD two_file_request = ''POST''"
    by (simp add: two_file_request_def)
  have fl: "FILES two_file_request =
      [(''upload-container-1'', upload_pdf), (''upload-container-2'', upload_big)]"
    by (simp add: two_file_request_def)
  have ok: "up_error upload_pdf = UPLOAD_ERR_OK
      \<and> in_array (up_type upload_pdf) allowedFileTypes_php
      \<and> up_size upload_pdf \<le> maxFileSize_php"
    by (simp add: upload_pdf_def UPLOAD_ERR_OK_def in_array_def allowedFileTypes_php_def
          maxFileSize_php_def)
  have mv: "fst (move_uploaded_file listing_platform
                   (if is_dir listing_platform [] uploadDir then []
                    else mkdir listing_platform [] uploadDir)
                   (up_tmp_name upload_pdf)
                   (uploadFilePath upload_pdf
                      (fileName (POST two_file_request) ''upload-container-1'')))"
    by (simp add: listing_platform_def)
  have big: "maxFileSize_php < up_size upload_big
      \<and> up_error upload_big = UPLOAD_ERR_OK
      \<and> in_array (up_type upload_big) allowedFileTypes_php
      \<and> up_name upload_big = ''big.png''"
    by (simp add: upload_big_def UPLOAD_ERR_OK_def in_array_def allowedFileTypes_php_def
          maxFileSize_php_def)
  have e: "htmlspecialchars ''report.pdf'' = ''report.pdf''"
    by (simp add: htmlspecialchars_def html_entity_def)
  note t = one_line_per_file [OF m, of listing_platform "[]"]
  have second: "fst (collect_messages listing_platform (POST two_file_request) []
                       (FILES two_file_request)) ! 1 =
      message (uploadFile listing_platform
                 (snd (collect_messages listing_platform (POST two_file_request) []
                         (take 1 (FILES two_file_request))))
                 (snd (FILES two_file_request ! 1))
                 (fileName (POST two_file_request) (fst (FILES two_file_request ! 1))))"
    using t by (simp add: fl)
  have out: "fst (handle_request listing_platform [] two_file_request) =
      ''File uploaded successfully: report.pdf<br>File is too large: big.png<br>''"
  proof -
    have "fst (handle_request listing_platform [] two_file_request) =
            ''File uploaded successfully: ''
              @ htmlspecialchars
                  (resolveFileName upload_pdf
                     (fileName (POST two_file_request) ''upload-container-1''))
              @ ''<br>''
              @ (if up_error upload_big \<noteq> UPLOAD_ERR_OK
                 then ''There was an error uploading the file: ''
                        @ string_of_nat (up_error upload_big)
                 else if \<not> in_array (up_type upload_big) allowedFileTypes_php
                 then ''File type not allowed: '' @ up_type upload_big
                 else ''File is too large: '' @ up_name upload_big)
              @ ''<br>''"
      by (rule t [THEN conjunct2, THEN conjunct2, THEN conjunct2, rule_format,
                  of "''upload-container-1''" upload_pdf "''upload-container-2''" upload_big])
         (simp add: fl ok mv big)
    then show ?thesis
      by (simp add: fileName_examples resolve_report_pdf e big)
  qed
  show ?thesis
    using m ok big out second
    by (simp add: fl failure_line [of upload_big])
qed

subsection \<open>The final file name\<close>

lemma basename_examples:
  "basename ''../../etc/passwd'' = ''passwd''
   \<and> basename ''report.0'' = ''report.0''
   \<and> basename ''README'' = ''README''
   \<and> basename ''a.pdf'' = ''a.pdf''"
  by (simp add: basename_def)

lemma upload_pdf_extension: "fileExtension upload_pdf = Some ''pdf''"
  by (simp add: fileExtension_def upload_pdf_def pathinfo_extension_key_def basename_def)





text \<open>
  Claim C1, at the input where the code departs from it. The desired name
  \<^verbatim>\<open>../../etc/passwd\<close> has no extension, so the first branch is taken, which
  does not call \<^verbatim>\<open>basename\<close>: the path handed to \<^verbatim>\<open>move_uploaded_file\<close>
  keeps both \<^verbatim>\<open>..\<close> segments.
\<close>

theorem traversal_kept_without_extension:
  "pathinfo_EXTENSION ''../../etc/passwd'' = []
   \<and> resolveFileName upload_pdf ''../../etc/passwd'' = ''../../etc/passwd.pdf''
   \<and> uploadFilePath upload_pdf ''../../etc/passwd'' = ''uploads/../../etc/passwd.pdf''
   \<and> filesystem (uploadFile listing_platform [] upload_pdf ''../../etc/passwd'')
       = [''uploads/../../etc/passwd.pdf'', ''uploads/'']"
proof -
  have x: "pathinfo_EXTENSION ''../../etc/passwd'' = []"
    by (simp add: pathinfo_EXTENSION_def pathinfo_extension_key_def basename_examples
          php_str_def)
  have r: "resolveFileName upload_pdf ''../../etc/passwd'' = ''../../etc/passwd.pdf''"
    by (simp add: resolveFileName_def x php_empty_def upload_pdf_extension php_str_def)
  have u: "uploadFilePath upload_pdf ''../../etc/passwd'' = ''uploads/../../etc/passwd.pdf''"
    by (simp add: uploadFilePath_def uploadDir_def r)
  have c: "up_error upload_pdf = UPLOAD_ERR_OK
      \<and> in_array (up_type upload_pdf) allowedFileTypes_php
      \<and> \<not> maxFileSize_php < up_size upload_pdf"
    by (simp add: upload_pdf_def UPLOAD_ERR_OK_def in_array_def allowedFileTypes_php_def
          maxFileSize_php_def)
  have f: "filesystem (uploadFile listing_platform [] upload_pdf ''../../etc/passwd'')
             = [''uploads/../../etc/passwd.pdf'', ''uploads/'']"
    by (simp add: uploadFile_def c Let_def u listing_platform_def uploadDir_def)
  from x r u f show ?thesis
    by (simp only: simp_thms)
qed

text \<open>
  Claim C2, at the input where the code departs from it. The desired name
  \<^verbatim>\<open>report.0\<close> has the extension \<^verbatim>\<open>0\<close>, which differs from the original
  extension \<^verbatim>\<open>pdf\<close>; \<^verbatim>\<open>empty("0")\<close> is true, so the extension is appended
  instead of replacing it. The two examples of the specification are computed
  as it says.
\<close>

theorem zero_extension_not_replaced:
  "pathinfo_EXTENSION ''report.0'' = ''0''
   \<and> fileExtension upload_pdf = Some ''pdf''
   \<and> resolveFileName upload_pdf ''report.0'' = ''report.0.pdf''
   \<and> resolveFileName upload_pdf ''report'' = ''report.pdf''
   \<and> resolveFileName upload_pdf ''report.txt'' = ''report.pdf''"
proof -
  have x: "pathinfo_EXTENSION ''report.0'' = ''0''"
    by (simp add: pathinfo_EXTENSION_def pathinfo_extension_key_def basename_examples
          php_str_def)
  have r: "resolveFileName upload_pdf ''report.0'' = ''report.0.pdf''"
    by (simp add: resolveFileName_def x php_empty_def upload_pdf_extension php_str_def)
  have b: "basename ''report.txt'' = ''report.txt''"
    by (simp add: basename_def)
  have y: "pathinfo_EXTENSION ''report.txt'' = ''txt''"
    by (simp add: pathinfo_EXTENSION_def pathinfo_extension_key_def b php_str_def)
  have z: "pathinfo_FILENAME ''report.txt'' = ''report''"
    by (simp add: pathinfo_FILENAME_def b)
  have t: "resolveFileName upload_pdf ''report.txt'' = ''report.pdf''"
    by (simp add: resolveFileName_def y z b php_empty_def upload_pdf_extension php_str_def
          Let_def)
  from x upload_pdf_extension r resolve_report_pdf t show ?thesis
    by (simp only: simp_thms)
qed

subsection \<open>Escaping\<close>

text \<open>
  Claim C3, at the inputs where the code departs from it. The MIME type and
  the original name are put into the messages as they came, and the response
  is the message followed by \<^verbatim>\<open><br>\<close>: a type \<^verbatim>\<open><b>\<close> and a name
  \<^verbatim>\<open><i>.png\<close> reach the response unescaped.
\<close>

theorem failure_lines_not_escaped:
  "fst (handle_request p fs
          \<lparr>REQUEST_METHOD = ''POST'',
           FILES = [(''upload-container-1'',
                     \<lparr>up_error = 0, up_type = ''<b>'', up_name = ''a.pdf'', up_size = 10,
                      up_tmp_name = ''/tmp/php1''\<rparr>),
                    (''upload-container-2'',
                     \<lparr>up_error = 0, up_type = ''image/png'', up_name = ''<i>.png'',
                      up_size = 3000000, up_tmp_name = ''/tmp/php2''\<rparr>)],
           POST = Map.empty\<rparr>)
     = ''File type not allowed: <b><br>File is too large: <i>.png<br>''
   \<and> htmlspecialchars ''File type not allowed: <b>'' = ''File type not allowed: &lt;b&gt;''
   \<and> htmlspecialchars ''File is too large: <i>.png'' = ''File is too large: &lt;i&gt;.png''"
proof -
  have a: "message (uploadFile p fs'
             \<lparr>up_error = 0, up_type = ''<b>'', up_name = ''a.pdf'', up_size = 10,
              up_tmp_name = ''/tmp/php1''\<rparr> n) = ''File type not allowed: <b>''" for fs' n
    by (simp add: uploadFile_def UPLOAD_ERR_OK_def in_array_def allowedFileTypes_php_def)
  have b: "message (uploadFile p fs'
             \<lparr>up_error = 0, up_type = ''image/png'', up_name = ''<i>.png'',
              up_size = 3000000, up_tmp_name = ''/tmp/php2''\<rparr> n)
           = ''File is too large: <i>.png''" for fs' n
    by (simp add: uploadFile_def UPLOAD_ERR_OK_def in_array_def allowedFileTypes_php_def
          maxFileSize_php_def)
  have "fst (collect_messages p Map.empty fs
          [(''upload-container-1'',
            \<lparr>up_error = 0, up_type = ''<b>'', up_name = ''a.pdf'', up_size = 10,
             up_tmp_name = ''/tmp/php1''\<rparr>),
           (''upload-container-2'',
            \<lparr>up_error = 0, up_type = ''image/png'', up_name = ''<i>.png'',
             up_size = 3000000, up_tmp_name = ''/tmp/php2''\<rparr>)])
        = [''File type not allowed: <b>'', ''File is too large: <i>.png'']"
    unfolding collect_messages_fst_Cons a b by simp
  then have o: "fst (handle_request p fs
          \<lparr>REQUEST_METHOD = ''POST'',
           FILES = [(''upload-container-1'',
                     \<lparr>up_error = 0, up_type = ''<b>'', up_name = ''a.pdf'', up_size = 10,
                      up_tmp_name = ''/tmp/php1''\<rparr>),
                    (''upload-container-2'',
                     \<lparr>up_error = 0, up_type = ''image/png'', up_name = ''<i>.png'',
                      up_size = 3000000, up_tmp_name = ''/tmp/php2''\<rparr>)],
           POST = Map.empty\<rparr>)
     = ''File type not allowed: <b><br>File is too large: <i>.png<br>''"
    by (simp add: handle_request_def echo_messages_def Let_def)
  have h: "htmlspecialchars ''File type not allowed: <b>'' = ''File type not allowed: &lt;b&gt;''
     \<and> htmlspecialchars ''File is too large: <i>.png'' = ''File is too large: &lt;i&gt;.png''"
    by (simp add: htmlspecialchars_def html_entity_def)
  from o h show ?thesis
    by (simp only: simp_thms)
qed

section \<open>Further properties\<close>

subsection \<open>Where the final file name follows the contract\<close>

lemma basename_no_separator: "CHR ''/'' \<notin> set (basename path)"
  by (auto simp add: basename_def dest: set_takeWhileD)

lemma basename_idem: "basename (basename path) = basename path"
proof -
  define t where "t = takeWhile (\<lambda>c. c \<noteq> CHR ''/'') (dropWhile (\<lambda>c. c = CHR ''/'') (rev path))"
  have "\<forall>c\<in>set t. c \<noteq> CHR ''/''"
    unfolding t_def by (auto dest: set_takeWhileD)
  then have "dropWhile (\<lambda>c. c = CHR ''/'') t = t"
    by (cases t) auto
  moreover have "takeWhile (\<lambda>c. c \<noteq> CHR ''/'') t = t"
    by (simp add: t_def)
  ultimately show ?thesis
    by (simp add: basename_def t_def [symmetric])
qed

lemma pathinfo_EXTENSION_basename:
  "pathinfo_EXTENSION (basename path) = pathinfo_EXTENSION path"
  by (simp add: pathinfo_EXTENSION_def pathinfo_extension_key_def basename_idem)

lemma pathinfo_FILENAME_subset: "set (pathinfo_FILENAME path) \<subseteq> set (basename path)"
proof -
  have tl: "set (tl ys) \<subseteq> set ys" for ys :: string
    by (cases ys) auto
  have "set (dropWhile (\<lambda>c. c \<noteq> CHR ''.'') (rev (basename path)))
          \<subseteq> set (rev (basename path))"
    by (auto dest: set_dropWhileD)
  with tl [of "dropWhile (\<lambda>c. c \<noteq> CHR ''.'') (rev (basename path))"]
  have "set (tl (dropWhile (\<lambda>c. c \<noteq> CHR ''.'') (rev (basename path))))
          \<subseteq> set (rev (basename path))"
    by blast
  then show ?thesis
    by (auto simp add: pathinfo_FILENAME_def Let_def)
qed

lemma fileExtension_no_separator: "CHR ''/'' \<notin> set (php_str (fileExtension f))"
proof (cases "fileExtension f")
  case None
  then show ?thesis
    by (simp add: php_str_def)
next
  case (Some e)
  have "set (takeWhile (\<lambda>c. c \<noteq> CHR ''.'') (rev (basename (up_name f))))
          \<subseteq> set (rev (basename (up_name f)))"
    by (auto dest: set_takeWhileD)
  with Some have "set e \<subseteq> set (basename (up_name f))"
    by (auto simp add: fileExtension_def pathinfo_extension_key_def Let_def
          split: if_splits)
  with Some show ?thesis
    using basename_no_separator [of "up_name f"] by (auto simp add: php_str_def)
qed

text \<open>
  Property X1. For an original name with the extension \<open>ext\<close>: a desired name without
  extension gets \<open>ext\<close> appended; a desired name whose extension is neither
  empty, nor \<^verbatim>\<open>0\<close>, nor \<open>ext\<close>, is reduced to its base name and gets \<open>ext\<close> in
  place of its own extension; a desired name that has the extension \<open>ext\<close>
  already is reduced to its base name.
\<close>

theorem resolveFileName_contract:
  assumes "fileExtension f = Some ext"
  shows "(pathinfo_EXTENSION n = [] \<longrightarrow> resolveFileName f n = n @ ''.'' @ ext)
    \<and> (pathinfo_EXTENSION n \<notin> {[], ''0'', ext} \<longrightarrow>
         resolveFileName f n = pathinfo_FILENAME (basename n) @ ''.'' @ ext)
    \<and> (pathinfo_EXTENSION n = ext \<and> ext \<notin> {[], ''0''} \<longrightarrow>
         resolveFileName f n = basename n)"
  using assms
  by (simp add: resolveFileName_def php_empty_def php_str_def Let_def
        pathinfo_EXTENSION_basename)

theorem resolveFileName_contract_witness:
  "fileExtension upload_pdf = Some ''pdf''
   \<and> pathinfo_EXTENSION ''report'' = []
   \<and> resolveFileName upload_pdf ''report'' = ''report.pdf''
   \<and> pathinfo_EXTENSION ''../x/report.txt'' = ''txt''
   \<and> resolveFileName upload_pdf ''../x/report.txt'' = ''report.pdf''
   \<and> pathinfo_EXTENSION ''../x/report.pdf'' = ''pdf''
   \<and> resolveFileName upload_pdf ''../x/report.pdf'' = ''report.pdf''"
proof -
  note t = resolveFileName_contract [OF upload_pdf_extension]
  have x1: "pathinfo_EXTENSION ''report'' = []"
    by (simp add: pathinfo_EXTENSION_def pathinfo_extension_key_def basename_def php_str_def)
  have b2: "basename ''../x/report.txt'' = ''report.txt''"
    by (simp add: basename_def)
  have x2: "pathinfo_EXTENSION ''../x/report.txt'' = ''txt''"
    by (simp add: pathinfo_EXTENSION_def pathinfo_extension_key_def b2 php_str_def)
  have n2: "pathinfo_FILENAME ''report.txt'' = ''report''"
    by (simp add: pathinfo_FILENAME_def basename_def)
  have b3: "basename ''../x/report.pdf'' = ''report.pdf''"
    by (simp add: basename_def)
  have x3: "pathinfo_EXTENSION ''../x/report.pdf'' = ''pdf''"
    by (simp add: pathinfo_EXTENSION_def pathinfo_extension_key_def b3 php_str_def)
  have r1: "resolveFileName upload_pdf ''report'' = ''report.pdf''"
    using t [of "''report''"] by (simp add: x1)
  have r2: "resolveFileName upload_pdf ''../x/report.txt'' = ''report.pdf''"
    using t [of "''../x/report.txt''"] by (simp add: x2 b2 n2)
  have r3: "resolveFileName upload_pdf ''../x/report.pdf'' = ''report.pdf''"
    using t [of "''../x/report.pdf''"] by (simp add: x3 b3)
  from upload_pdf_extension x1 r1 x2 r2 x3 r3 show ?thesis
    by (simp only: simp_thms)
qed

text \<open>
  Property X2. In the branch that calls \<^verbatim>\<open>basename\<close> (the desired name has an extension
  other than \<^verbatim>\<open>0\<close>), the final name has no directory separator.
\<close>

theorem extension_branch_no_separator:
  assumes "\<not> php_empty (pathinfo_EXTENSION n)"
  shows "CHR ''/'' \<notin> set (resolveFileName f n)"
  using assms basename_no_separator [of n] pathinfo_FILENAME_subset [of "basename n"]
    fileExtension_no_separator [of f]
  by (auto simp add: resolveFileName_def Let_def basename_idem)

theorem extension_branch_no_separator_witness:
  "\<not> php_empty (pathinfo_EXTENSION ''../../etc/passwd.txt'')
   \<and> CHR ''/'' \<notin> set (resolveFileName upload_pdf ''../../etc/passwd.txt'')
   \<and> resolveFileName upload_pdf ''../../etc/passwd.txt'' = ''passwd.pdf''"
proof -
  have b: "basename ''../../etc/passwd.txt'' = ''passwd.txt''"
    by (simp add: basename_def)
  have x: "pathinfo_EXTENSION ''../../etc/passwd.txt'' = ''txt''"
    by (simp add: pathinfo_EXTENSION_def pathinfo_extension_key_def b php_str_def)
  have a: "\<not> php_empty (pathinfo_EXTENSION ''../../etc/passwd.txt'')"
    by (simp add: x php_empty_def)
  have n: "pathinfo_FILENAME ''passwd.txt'' = ''passwd''"
    by (simp add: pathinfo_FILENAME_def basename_def)
  have y: "pathinfo_EXTENSION ''passwd.txt'' = ''txt''"
    by (simp add: pathinfo_EXTENSION_def pathinfo_extension_key_def basename_def php_str_def)
  have r: "resolveFileName upload_pdf ''../../etc/passwd.txt'' = ''passwd.pdf''"
    by (simp add: resolveFileName_def x php_empty_def b y n upload_pdf_extension php_str_def
          Let_def)
  from a extension_branch_no_separator [OF a, of upload_pdf] r show ?thesis
    by (simp only: simp_thms)
qed

subsection \<open>Where the message is escaped\<close>

lemma htmlspecialchars_append:
  "htmlspecialchars (a @ b) = htmlspecialchars a @ htmlspecialchars b"
  by (simp add: htmlspecialchars_def)

text \<open>
  Property X3. The success message: escaping the file name alone, as line 63 does, is
  escaping the whole message.
\<close>

theorem success_message_escaped:
  assumes "up_error f = UPLOAD_ERR_OK" and "in_array (up_type f) allowedFileTypes_php"
    and "up_size f \<le> maxFileSize_php"
    and "fst (move_uploaded_file p
               (if is_dir p fs uploadDir then fs else mkdir p fs uploadDir)
               (up_tmp_name f) (uploadFilePath f n))"
  shows "message (uploadFile p fs f n) =
           htmlspecialchars (''File uploaded successfully: '' @ resolveFileName f n)"
proof -
  have "htmlspecialchars ''File uploaded successfully: '' = ''File uploaded successfully: ''"
    by (simp add: htmlspecialchars_def html_entity_def)
  then show ?thesis
    unfolding success_line [OF assms] htmlspecialchars_append by simp
qed

theorem success_message_escaped_witness:
  "up_error upload_pdf = UPLOAD_ERR_OK \<and> in_array (up_type upload_pdf) allowedFileTypes_php
   \<and> up_size upload_pdf \<le> maxFileSize_php
   \<and> message (uploadFile listing_platform [] upload_pdf ''<report>'')
       = ''File uploaded successfully: &lt;report&gt;.pdf''"
proof -
  have a: "up_error upload_pdf = UPLOAD_ERR_OK"
    by (simp add: upload_pdf_def UPLOAD_ERR_OK_def)
  have b: "in_array (up_type upload_pdf) allowedFileTypes_php"
    by (simp add: upload_pdf_def in_array_def allowedFileTypes_php_def)
  have c: "up_size upload_pdf \<le> maxFileSize_php"
    by (simp add: upload_pdf_def maxFileSize_php_def)
  have mv: "fst (move_uploaded_file listing_platform
                   (if is_dir listing_platform [] uploadDir then []
                    else mkdir listing_platform [] uploadDir)
                   (up_tmp_name upload_pdf) (uploadFilePath upload_pdf ''<report>''))"
    by (simp add: listing_platform_def)
  have x: "pathinfo_EXTENSION ''<report>'' = []"
    by (simp add: pathinfo_EXTENSION_def pathinfo_extension_key_def basename_def php_str_def)
  have r: "resolveFileName upload_pdf ''<report>'' = ''<report>.pdf''"
    by (simp add: resolveFileName_def x php_empty_def upload_pdf_extension php_str_def)
  have h: "htmlspecialchars ''File uploaded successfully: <report>.pdf''
             = ''File uploaded successfully: &lt;report&gt;.pdf''"
    by (simp add: htmlspecialchars_def html_entity_def)
  from a b c success_message_escaped [OF a b c mv] show ?thesis
    by (simp add: r h)
qed

subsection \<open>What an accepted image leaves on the display\<close>

text \<open>
  Property X4. When the accepted file is an image, \<open>handleFiles\<close> does not touch the
  preview's text: it stays what the previous selection made it.
\<close>

theorem image_keeps_preview_text:
  assumes "fst (validateFile f w)" and "take 6 (file_type f) = ''image/''"
  shows "previewText (handleFiles (f # others) w) = previewText w"
proof -
  from assms(1) have "validateFile f w = (True, w)"
    by (auto simp add: validateFile_def split: if_splits)
  with assms(2) show ?thesis
    by (simp add: handleFiles_def Let_def displayFile_def)
qed

theorem image_keeps_preview_text_witness:
  "fst (validateFile photo_png (handleFiles [report_pdf] any_widget))
   \<and> take 6 (file_type photo_png) = ''image/''
   \<and> previewText (handleFiles [photo_png] (handleFiles [report_pdf] any_widget)) = ''PDF''"
proof -
  have o: "options (handleFiles [report_pdf] any_widget) = options any_widget"
    by (simp add: any_widget_after_pdf)
  have a: "fst (validateFile photo_png (handleFiles [report_pdf] any_widget))"
    by (simp add: validateFile_def o any_widget_options photo_png_def)
  have b: "take 6 (file_type photo_png) = ''image/''"
    by (simp add: photo_png_def)
  from a b image_keeps_preview_text [OF a b, of "[]"] show ?thesis
    by (simp add: any_widget_after_pdf)
qed

end
